theory Spec2Isabelle
  imports Complex_Main
begin

section \<open>JavaScript values\<close>

text \<open>
  The values the frontend handles: request options, JSON bodies and component props.
  A finite number is a \<open>real\<close> (so \<open>0\<close> and \<open>-0\<close> are one value), \<open>NaN\<close> is separate.
  An object is its list of own properties; a property is read at its first entry.
  \<open>JBuiltin k\<close> stands for the function or object that \<open>Object.prototype\<close> holds
  under the key \<open>k\<close>. \<open>Error v\<close> is the object \<open>new Error(v)\<close> builds: its message
  is \<open>v\<close> converted to a string, \<open>v\<close> itself when \<open>v\<close> is a string.
\<close>

datatype jsval =
    JUndefined
  | JNull
  | JBool bool
  | JNum real
  | JNaN
  | JStr string
  | JBuiltin string
  | JObj "(string \<times> jsval) list"

datatype js_error =
    Error jsval
  | TypeError

text \<open>ToBoolean: \<open>undefined\<close>, \<open>null\<close>, \<open>false\<close>, \<open>0\<close>, \<open>NaN\<close> and \<open>''\<close> are falsy.\<close>

fun truthy :: "jsval \<Rightarrow> bool" where
  "truthy JUndefined = False"
| "truthy JNull = False"
| "truthy (JBool b) = b"
| "truthy (JNum r) = (r \<noteq> 0)"
| "truthy JNaN = False"
| "truthy (JStr s) = (s \<noteq> [])"
| "truthy (JBuiltin k) = True"
| "truthy (JObj ps) = True"

text \<open>\<open>a || b\<close> on already evaluated operands (the operands here have no effects).\<close>

definition js_or :: "jsval \<Rightarrow> jsval \<Rightarrow> jsval" where
  "js_or a b = (if truthy a then a else b)"

text \<open>\<open>a === b\<close> and \<open>a !== b\<close>: strict equality; \<open>NaN\<close> differs from itself.
  Objects are compared by identity, which this model does not track: the operators
  are used with a primitive on one side only.\<close>

definition strict_eq :: "jsval \<Rightarrow> jsval \<Rightarrow> bool" where
  "strict_eq a b = (a = b \<and> a \<noteq> JNaN)"

definition strict_neq :: "jsval \<Rightarrow> jsval \<Rightarrow> bool" where
  "strict_neq a b = (\<not> strict_eq a b)"

text \<open>
  \<open>v.k\<close> for a data property of a plain value: reading a property of \<open>undefined\<close> or
  \<open>null\<close> throws a TypeError, a missing property reads as \<open>undefined\<close>.
  The keys read below (\<open>includePaint\<close>, \<open>laborRate\<close>, \<open>markup\<close>, \<open>detail\<close>,
  \<open>message\<close>) are not inherited from any prototype.
\<close>

fun get_prop :: "jsval \<Rightarrow> string \<Rightarrow> js_error + jsval" where
  "get_prop JUndefined k = Inl TypeError"
| "get_prop JNull k = Inl TypeError"
| "get_prop (JObj ps) k = Inr (case map_of ps k of None \<Rightarrow> JUndefined | Some v \<Rightarrow> v)"
| "get_prop v k = Inr JUndefined"

text \<open>\<open>v?.k\<close>: optional chaining reads \<open>undefined\<close> where \<open>v.k\<close> would throw.\<close>

definition get_opt :: "jsval \<Rightarrow> string \<Rightarrow> jsval" where
  "get_opt v k = (case get_prop v k of Inl e \<Rightarrow> JUndefined | Inr x \<Rightarrow> x)"

section \<open>services/api.js: createEstimation\<close>

text \<open>
  \<^verbatim>\<open>
  export const createEstimation = async (detectionId, options = {}) => {
    try {
      const payload = {
        detection_id: detectionId,
        include_paint: options.includePaint !== false,
        labor_rate_override: options.laborRate || null,
        markup_override: options.markup || null,
      }
      const response = await api.post('/estimations/', payload)
      return response.data
    } catch (error) { console.error('Estimation error:', error); throw error }
  }
  \<close>
  The default parameter replaces an omitted (\<open>undefined\<close>) argument by \<open>{}\<close>.
\<close>

definition default_options :: "jsval \<Rightarrow> jsval" where
  "default_options options = (if options = JUndefined then JObj [] else options)"

definition estimation_payload :: "jsval \<Rightarrow> jsval \<Rightarrow> js_error + jsval" where
  "estimation_payload detectionId options =
     (let opts = default_options options in
      (case get_prop opts ''includePaint'' of
         Inl e \<Rightarrow> Inl e
       | Inr includePaint \<Rightarrow>
          (case get_prop opts ''laborRate'' of
             Inl e \<Rightarrow> Inl e
           | Inr laborRate \<Rightarrow>
              (case get_prop opts ''markup'' of
                 Inl e \<Rightarrow> Inl e
               | Inr markup \<Rightarrow>
                   Inr (JObj [(''detection_id'', detectionId),
                              (''include_paint'', JBool (strict_neq includePaint (JBool False))),
                              (''labor_rate_override'', js_or laborRate JNull),
                              (''markup_override'', js_or markup JNull)])))))"

text \<open>The field of a built payload; \<open>undefined\<close> when no payload was built.\<close>

definition payload_field :: "js_error + jsval \<Rightarrow> string \<Rightarrow> jsval" where
  "payload_field r k = (case r of Inl e \<Rightarrow> JUndefined | Inr p \<Rightarrow> get_opt p k)"

section \<open>services/api.js: the axios instance and its response interceptor\<close>

text \<open>
  What the interceptor reads of a rejected request: \<open>error.response\<close> (here the
  response's \<open>data\<close>, \<open>None\<close> when there is no response), whether \<open>error.request\<close>
  is set, and \<open>error.message\<close>.
\<close>

record axios_error =
  response :: "jsval option"
  request :: bool
  message :: jsval

text \<open>
  \<^verbatim>\<open>
  (error) => {
    if (error.response) {
      const message = error.response.data?.detail || error.response.data?.message
                      || 'Server error occurred'
      throw new Error(message)
    } else if (error.request) {
      throw new Error('Cannot connect to server. Please ensure the backend is running.')
    } else {
      throw new Error(error.message || 'An unexpected error occurred')
    }
  }
  \<close>
\<close>

definition response_error_interceptor :: "axios_error \<Rightarrow> js_error" where
  "response_error_interceptor error =
     (case response error of
        Some data \<Rightarrow>
          Error (js_or (js_or (get_opt data ''detail'') (get_opt data ''message''))
                       (JStr ''Server error occurred''))
      | None \<Rightarrow>
          if request error
          then Error (JStr ''Cannot connect to server. Please ensure the backend is running.'')
          else Error (js_or (message error) (JStr ''An unexpected error occurred'')))"

text \<open>
  A template literal keeps its interpolated values; a request is what the function
  hands to axios. The transport \<open>http\<close> is the network: it rejects with an
  \<open>axios_error\<close> or fulfils with the response's \<open>data\<close>.
  \<open>FormData.append\<close> keeps a file as it is and converts every other value to a
  string: \<open>AsString v\<close> is the string \<open>v\<close> converts to, \<open>0.25\<close> for the number and
  \<open>true\<close> for the boolean.
\<close>

datatype template_part = Lit string | Val jsval

datatype form_value = AsFile jsval | AsString jsval

datatype request_body = Json jsval | FormData "(string \<times> form_value) list"

datatype http_request =
    Post "template_part list" request_body
  | Get "template_part list" "(string \<times> jsval) list"

type_synonym transport = "http_request \<Rightarrow> axios_error + jsval"

text \<open>A request through \<open>api\<close>: the success interceptor returns the response as it
  is, the error interceptor throws.\<close>

definition api_request :: "transport \<Rightarrow> http_request \<Rightarrow> js_error + jsval" where
  "api_request http req =
     (case http req of
        Inl error \<Rightarrow> Inl (response_error_interceptor error)
      | Inr data \<Rightarrow> Inr data)"

text \<open>\<open>try { ... } catch (error) { console.error(label, error); throw error }\<close>:
  the result is the lines written to the console and the outcome.\<close>

type_synonym console = "(string \<times> js_error) list"

definition log_and_rethrow :: "string \<Rightarrow> js_error + jsval \<Rightarrow> console \<times> (js_error + jsval)" where
  "log_and_rethrow label r =
     (case r of Inl error \<Rightarrow> ([(label, error)], Inl error) | Inr v \<Rightarrow> ([], Inr v))"



definition createEstimation_request :: "jsval \<Rightarrow> http_request" where
  "createEstimation_request payload = Post [Lit ''/estimations/''] (Json payload)"

definition createEstimation :: "transport \<Rightarrow> jsval \<Rightarrow> jsval \<Rightarrow> console \<times> (js_error + jsval)" where
  "createEstimation http detectionId options =
     log_and_rethrow ''Estimation error:''
       (case estimation_payload detectionId options of
          Inl e \<Rightarrow> Inl e
        | Inr payload \<Rightarrow> api_request http (createEstimation_request payload))"









section \<open>App.jsx: the state of the page and its handlers\<close>

text \<open>
  The seven \<open>useState\<close> cells. A handler's setters are applied together; the model
  gives the state of the next render. \<open>'f\<close> is the type of uploaded files.
\<close>

record 'f app_state =
  uploadedImage :: "'f option"
  imagePreview :: "string option"
  detectionData :: jsval
  costEstimation :: jsval
  loading :: bool
  error :: jsval
  step :: nat

definition initial_state :: "'f app_state" where
  "initial_state =
     \<lparr>uploadedImage = None, imagePreview = None, detectionData = JNull,
      costEstimation = JNull, loading = False, error = JNull, step = 1\<rparr>"

text \<open>
  \<^verbatim>\<open>
  const handleImageUpload = (file) => {
    setUploadedImage(file)
    setImagePreview(URL.createObjectURL(file))
    setDetectionData(null)
    setCostEstimation(null)
    setError(null)
    setStep(1)
  }
  \<close>
  \<open>createObjectURL\<close> is the browser's; on a file it returns a URL.
\<close>

definition handleImageUpload :: "('f \<Rightarrow> string) \<Rightarrow> 'f \<Rightarrow> 'f app_state \<Rightarrow> 'f app_state" where
  "handleImageUpload createObjectURL file st =
     st\<lparr>uploadedImage := Some file,
        imagePreview := Some (createObjectURL file),
        detectionData := JNull,
        costEstimation := JNull,
        error := JNull,
        step := 1\<rparr>"

definition handleReset :: "'f app_state \<Rightarrow> 'f app_state" where
  "handleReset st =
     st\<lparr>uploadedImage := None, imagePreview := None, detectionData := JNull,
        costEstimation := JNull, error := JNull, step := 1\<rparr>"

text \<open>
  \<^verbatim>\<open>
  const handleEstimate = async () => {
    if (!detectionData || detectionData.total_damages === 0) return
    setLoading(true); setError(null)
    try {
      const result = await createEstimation(detectionData.detection_id)
      setCostEstimation(result); setStep(3)
    } catch (err) {
      setError({ type: 'error',
                 message: err.message || 'Failed to estimate costs. Please try again.' })
    } finally { setLoading(false) }
  }
  \<close>
  The state once the promise has settled. \<open>message_of\<close> reads \<open>err.message\<close>, the
  string the runtime made of the error.
\<close>

definition handleEstimate ::
  "transport \<Rightarrow> (js_error \<Rightarrow> jsval) \<Rightarrow> 'f app_state \<Rightarrow> 'f app_state" where
  "handleEstimate http message_of st =
     (if \<not> truthy (detectionData st)
         \<or> strict_eq (get_opt (detectionData st) ''total_damages'') (JNum 0)
      then st
      else case snd (createEstimation http (get_opt (detectionData st) ''detection_id'') JUndefined) of
             Inr result \<Rightarrow>
               st\<lparr>error := JNull, costEstimation := result, step := 3, loading := False\<rparr>
           | Inl err \<Rightarrow>
               st\<lparr>error := JObj [(''type'', JStr ''error''),
                                 (''message'', js_or (message_of err)
                                    (JStr ''Failed to estimate costs. Please try again.''))],
                  loading := False\<rparr>)"

section \<open>components/DetectionResults.jsx\<close>

text \<open>The keys every object literal inherits from \<open>Object.prototype\<close>; each holds a
  function or an object.\<close>

definition object_prototype_keys :: "string list" where
  "object_prototype_keys =
     [''constructor'', ''hasOwnProperty'', ''isPrototypeOf'', ''propertyIsEnumerable'',
      ''toLocaleString'', ''toString'', ''valueOf'', ''__proto__'',
      ''__defineGetter__'', ''__defineSetter__'', ''__lookupGetter__'', ''__lookupSetter__'']"

text \<open>\<open>obj[key]\<close> on an object literal: own properties first, then the prototype.\<close>

definition lookup_literal :: "(string \<times> jsval) list \<Rightarrow> string \<Rightarrow> jsval" where
  "lookup_literal ps k =
     (case map_of ps k of
        Some v \<Rightarrow> v
      | None \<Rightarrow> if k \<in> set object_prototype_keys then JBuiltin k else JUndefined)"

text \<open>
  \<^verbatim>\<open>
  const getSeverityBadge = (severity) => {
    const badges = { minor: 'badge-success', moderate: 'badge-warning', severe: 'badge-danger' }
    return badges[severity] || 'badge-warning'
  }
  \<close>
  \<open>severity\<close> is the property key, the severity string of the damage.
\<close>

definition badges :: "(string \<times> jsval) list" where
  "badges = [(''minor'', JStr ''badge-success''),
             (''moderate'', JStr ''badge-warning''),
             (''severe'', JStr ''badge-danger'')]"

definition getSeverityBadge :: "string \<Rightarrow> jsval" where
  "getSeverityBadge severity = js_or (lookup_literal badges severity) (JStr ''badge-warning'')"

text \<open>
  \<^verbatim>\<open>
  const getSeverityIcon = (severity) => {
    if (severity === 'severe') return <red circle>
    if (severity === 'moderate') return <yellow circle>
    return <green circle>
  }
  \<close>
  The icons are the UTF-8 bytes of U+1F534, U+1F7E1 and U+1F7E2.
\<close>

definition getSeverityIcon :: "string \<Rightarrow> string" where
  "getSeverityIcon severity =
     (if severity = ''severe'' then [CHR 0xF0, CHR 0x9F, CHR 0x94, CHR 0xB4]
      else if severity = ''moderate'' then [CHR 0xF0, CHR 0x9F, CHR 0x9F, CHR 0xA1]
      else [CHR 0xF0, CHR 0x9F, CHR 0x9F, CHR 0xA2])"

text \<open>The fixed severity set.\<close>

definition severity_names :: "string list" where
  "severity_names = [''minor'', ''moderate'', ''severe'']"

text \<open>A detected damage as the component reads it.\<close>

record detected_damage =
  damage_type :: string
  severity :: string
  confidence :: real

text \<open>\<open>a / b\<close> on finite numbers: \<open>0 / 0\<close> is \<open>NaN\<close>, any other division by zero is
  an infinity (\<open>JInfinity positive\<close>).\<close>

datatype js_number = Finite real | NaN | JInfinity bool

definition js_divide :: "real \<Rightarrow> real \<Rightarrow> js_number" where
  "js_divide a b =
     (if b = 0 then (if a = 0 then NaN else JInfinity (0 < a)) else Finite (a / b))"

fun js_times :: "js_number \<Rightarrow> real \<Rightarrow> js_number" where
  "js_times (Finite a) c = Finite (a * c)"
| "js_times NaN c = NaN"
| "js_times (JInfinity p) c = (if c = 0 then NaN else JInfinity (p = (0 < c)))"

text \<open>
  \<^verbatim>\<open>
  {damages_detected.length > 0
    ? `${(damages_detected.reduce((acc, d) => acc + d.confidence, 0)
          / damages_detected.length * 100).toFixed(0)}%`
    : 'N/A'}
  \<close>
  \<open>Percent x\<close> is the cell that shows \<open>x.toFixed(0)\<close> followed by \<open>%\<close>.
\<close>

datatype confidence_cell = Percent js_number | Text string

definition average_confidence :: "detected_damage list \<Rightarrow> confidence_cell" where
  "average_confidence damages_detected =
     (if length damages_detected > 0
      then Percent (js_times
             (js_divide (foldl (\<lambda>acc d. acc + confidence d) 0 damages_detected)
                        (real (length damages_detected)))
             100)
      else Text ''N/A'')"

section \<open>The estimation engine\<close>

text \<open>
  The engine runs on the server and is not part of the frontend sources; the frontend
  only sends it requests and renders what it returns. It is modelled here from its
  specification, over exact real arithmetic.
\<close>

text \<open>Modelled from the spec: the fixed severity set of the engine's data model.\<close>

datatype severity_class = Minor | Moderate | Severe

text \<open>Modelled from the spec: DamageInstance, the engine's input record. The severity
  is optional; the bounding box is (x, y, width, height).\<close>

record damage_instance =
  di_damage_type :: string
  di_severity :: "severity_class option"
  di_confidence :: real
  di_bbox :: "real \<times> real \<times> real \<times> real"
  di_affected_part :: "string option"

text \<open>Modelled from the spec: CostRule, the parts cost, labor hours and paint cost of a
  (damage type, severity) pair.\<close>

record cost_rule =
  rule_parts_cost :: real
  rule_labor_hours :: real
  rule_paint_cost :: real

text \<open>Modelled from the spec: EstimationRequest.\<close>

record estimation_request =
  req_detection_id :: nat
  req_include_paint :: bool
  req_labor_rate_override :: "real option"
  req_markup_override :: "real option"

text \<open>Modelled from the spec: LineItem, one per damage instance.\<close>

record line_item =
  item_damage_type :: string
  item_severity :: severity_class
  item_parts_cost :: real
  item_labor_hours :: real
  item_labor_cost :: real
  item_paint_cost :: real
  item_subtotal :: real

text \<open>Modelled from the spec: Estimation, the engine's output record, with the field
  names of the JSON the frontend reads.\<close>

record estimation =
  detection_id :: nat
  parts_cost :: real
  labor_cost :: real
  paint_cost :: real
  markup :: real
  markup_percentage :: real
  labor_rate :: real
  estimated_labor_hours :: real
  total_cost :: real
  damage_items :: "line_item list"
  created_at :: nat

text \<open>Modelled from the spec: the error taxonomy of the engine. InvalidOverride names
  the offending field and value.\<close>

datatype engine_error =
    DetectionNotFound nat
  | InvalidOverride string real
  | CostRuleMissing string severity_class
  | PersistenceFailure

text \<open>Modelled from the spec: the configuration read at startup, that is the Cost Rule
  Table, the classifier with its thresholds (a pure function of the damage instance),
  the default labor rate and the default markup percentage.\<close>

record engine_config =
  cost_table :: "string \<times> severity_class \<Rightarrow> cost_rule option"
  classify :: "damage_instance \<Rightarrow> severity_class"
  default_labor_rate :: real
  default_markup_percentage :: real

text \<open>Modelled from the spec: the storage collaborator, which resolves a detection
  identifier to its damage instances and records an estimation (\<open>None\<close> when it fails).\<close>

record 's storage =
  find_detection :: "'s \<Rightarrow> nat \<Rightarrow> damage_instance list option"
  persist :: "estimation \<Rightarrow> 's \<Rightarrow> 's option"

text \<open>Modelled from the spec: the Cost Rule Table's lookup, which fails with
  CostRuleMissing and has no fallback rule.\<close>

definition lookup_rule ::
  "engine_config \<Rightarrow> string \<Rightarrow> severity_class \<Rightarrow> engine_error + cost_rule" where
  "lookup_rule cfg dt sev =
     (case cost_table cfg (dt, sev) of
        None \<Rightarrow> Inl (CostRuleMissing dt sev)
      | Some rule \<Rightarrow> Inr rule)"

text \<open>Modelled from the spec: the Override Resolver. An explicit override precedes the
  system default; the labor rate must be strictly positive and the markup percentage
  in [0, 100].\<close>

definition resolve_overrides ::
  "engine_config \<Rightarrow> estimation_request \<Rightarrow> engine_error + real \<times> real" where
  "resolve_overrides cfg req =
     (case (case req_labor_rate_override req of
              None \<Rightarrow> Inr (default_labor_rate cfg)
            | Some r \<Rightarrow> if 0 < r then Inr r else Inl (InvalidOverride ''labor_rate'' r)) of
        Inl e \<Rightarrow> Inl e
      | Inr rate \<Rightarrow>
          (case req_markup_override req of
             None \<Rightarrow> Inr (rate, default_markup_percentage cfg)
           | Some m \<Rightarrow>
               if 0 \<le> m \<and> m \<le> 100 then Inr (rate, m)
               else Inl (InvalidOverride ''markup_percentage'' m)))"

text \<open>Modelled from the spec: the severity of a damage instance, passed through when
  the detector attached one and classified otherwise.\<close>

definition resolve_severity :: "engine_config \<Rightarrow> damage_instance \<Rightarrow> severity_class" where
  "resolve_severity cfg d =
     (case di_severity d of Some s \<Rightarrow> s | None \<Rightarrow> classify cfg d)"

text \<open>Modelled from the spec: the Line-Item Calculator.\<close>

definition calculate_line_item ::
  "damage_instance \<Rightarrow> severity_class \<Rightarrow> cost_rule \<Rightarrow> real \<Rightarrow> bool \<Rightarrow> line_item" where
  "calculate_line_item d sev rule rate include_paint =
     (let labor = rule_labor_hours rule * rate;
          paint = (if include_paint then rule_paint_cost rule else 0);
          parts = rule_parts_cost rule
      in \<lparr>item_damage_type = di_damage_type d,
          item_severity = sev,
          item_parts_cost = parts,
          item_labor_hours = rule_labor_hours rule,
          item_labor_cost = labor,
          item_paint_cost = paint,
          item_subtotal = parts + labor + paint\<rparr>)"

text \<open>Modelled from the spec: the line items of a detection, in the order of its damage
  instances; a missing rule fails the whole request.\<close>

fun line_items ::
  "engine_config \<Rightarrow> real \<Rightarrow> bool \<Rightarrow> damage_instance list \<Rightarrow> engine_error + line_item list" where
  "line_items cfg rate include_paint [] = Inr []"
| "line_items cfg rate include_paint (d # ds) =
     (let sev = resolve_severity cfg d in
      case lookup_rule cfg (di_damage_type d) sev of
        Inl e \<Rightarrow> Inl e
      | Inr rule \<Rightarrow>
          (case line_items cfg rate include_paint ds of
             Inl e \<Rightarrow> Inl e
           | Inr items \<Rightarrow> Inr (calculate_line_item d sev rule rate include_paint # items)))"

text \<open>Modelled from the spec: the Aggregator's totals.\<close>

record totals =
  parts_total :: real
  labor_total :: real
  paint_total :: real
  hours_total :: real
  markup_total :: real
  grand_total :: real

text \<open>Modelled from the spec: the Aggregator, which sums the line items and computes
  markup and total.\<close>

definition aggregate :: "line_item list \<Rightarrow> real \<Rightarrow> totals" where
  "aggregate items pct =
     (let parts = sum_list (map item_parts_cost items);
          labor = sum_list (map item_labor_cost items);
          paint = sum_list (map item_paint_cost items);
          hours = sum_list (map item_labor_hours items);
          mk = (parts + labor + paint) * pct / 100
      in \<lparr>parts_total = parts, labor_total = labor, paint_total = paint,
          hours_total = hours, markup_total = mk,
          grand_total = parts + labor + paint + mk\<rparr>)"

text \<open>Modelled from the spec: the Estimation Record Builder's record.\<close>

definition build_estimation ::
  "estimation_request \<Rightarrow> real \<Rightarrow> real \<Rightarrow> line_item list \<Rightarrow> totals \<Rightarrow> nat \<Rightarrow> estimation" where
  "build_estimation req rate pct items t now =
     \<lparr>detection_id = req_detection_id req,
      parts_cost = parts_total t,
      labor_cost = labor_total t,
      paint_cost = paint_total t,
      markup = markup_total t,
      markup_percentage = pct,
      labor_rate = rate,
      estimated_labor_hours = hours_total t,
      total_cost = grand_total t,
      damage_items = items,
      created_at = now\<rparr>"

text \<open>Modelled from the spec: \<open>estimate\<close>, the engine's entry point. Overrides are
  validated before anything else, the detection is resolved before estimation begins,
  and the built record is handed to the storage collaborator. The result is the
  outcome and the store after the request.\<close>

definition estimate ::
  "engine_config \<Rightarrow> 's storage \<Rightarrow> nat \<Rightarrow> estimation_request \<Rightarrow> 's \<Rightarrow>
   (engine_error + estimation) \<times> 's" where
  "estimate cfg store now req s =
     (case resolve_overrides cfg req of
        Inl e \<Rightarrow> (Inl e, s)
      | Inr (rate, pct) \<Rightarrow>
          (case find_detection store s (req_detection_id req) of
             None \<Rightarrow> (Inl (DetectionNotFound (req_detection_id req)), s)
           | Some damages \<Rightarrow>
               (case line_items cfg rate (req_include_paint req) damages of
                  Inl e \<Rightarrow> (Inl e, s)
                | Inr items \<Rightarrow>
                    (let e = build_estimation req rate pct items (aggregate items pct) now
                     in case persist store e s of
                          None \<Rightarrow> (Inl PersistenceFailure, s)
                        | Some s' \<Rightarrow> (Inr e, s')))))"

section \<open>components/CostEstimation.jsx\<close>

text \<open>
  The component destructures its \<open>data\<close> prop and shows each amount through
  \<open>formatCurrency\<close> (\<open>Intl.NumberFormat\<close>, a parameter here); it computes nothing.
  A label is kept as its template literal.
\<close>

record item_view =
  shown_damage_type :: string
  shown_badge :: string
  shown_subtotal :: string
  shown_parts :: string
  shown_labor :: string
  shown_paint :: string

record cost_view =
  shown_total :: string
  shown_rows :: "(template_part list \<times> string) list"
  shown_items :: "item_view list"

text \<open>\<open>item.damage_type.replace(/_/g, ' ').replace(/-/g, ' ')\<close>\<close>

definition replace_separators :: "string \<Rightarrow> string" where
  "replace_separators s =
     map (\<lambda>c. if c = CHR ''-'' then CHR '' '' else c)
         (map (\<lambda>c. if c = CHR ''_'' then CHR '' '' else c) s)"

text \<open>The item's badge: \<open>severe\<close> and \<open>moderate\<close> by strict equality, \<open>badge-success\<close>
  for everything else.\<close>

definition item_badge :: "string \<Rightarrow> string" where
  "item_badge sev =
     (if sev = ''severe'' then ''badge-danger''
      else if sev = ''moderate'' then ''badge-warning''
      else ''badge-success'')"

text \<open>Modelled from the spec: the name under which the JSON of an estimation carries a
  severity.\<close>

fun severity_name :: "severity_class \<Rightarrow> string" where
  "severity_name Minor = ''minor''"
| "severity_name Moderate = ''moderate''"
| "severity_name Severe = ''severe''"

definition CostEstimation :: "(real \<Rightarrow> string) \<Rightarrow> estimation \<Rightarrow> cost_view" where
  "CostEstimation formatCurrency data =
     \<lparr>shown_total = formatCurrency (total_cost data),
      shown_rows =
        [([Lit ''Parts''], formatCurrency (parts_cost data)),
         ([Lit ''Labor ('', Val (JNum (estimated_labor_hours data)), Lit ''hrs @ '',
           Lit (formatCurrency (labor_rate data)), Lit ''/hr)''],
          formatCurrency (labor_cost data)),
         ([Lit ''Paint & Finish''], formatCurrency (paint_cost data)),
         ([Lit ''Markup ('', Val (JNum (markup_percentage data)), Lit ''%)''],
          formatCurrency (markup data))],
      shown_items =
        map (\<lambda>item.
               \<lparr>shown_damage_type = replace_separators (item_damage_type item),
                shown_badge = item_badge (severity_name (item_severity item)),
                shown_subtotal = formatCurrency (item_subtotal item),
                shown_parts = formatCurrency (item_parts_cost item),
                shown_labor = formatCurrency (item_labor_cost item),
                shown_paint = formatCurrency (item_paint_cost item)\<rparr>)
            (damage_items data)\<rparr>"

section \<open>The specification's worked example\<close>

text \<open>
  One \<open>damaged_bumper\<close> of severity moderate, rule parts 400, labor hours 3.0, paint
  400, labor rate 75, markup 20 percent, paint included; the store is the list of the
  estimations recorded so far, and detection 1 is the only one it knows.
\<close>

definition example_damage :: damage_instance where
  "example_damage =
     \<lparr>di_damage_type = ''damaged_bumper'', di_severity = Some Moderate,
      di_confidence = 0.9, di_bbox = (0.1, 0.2, 0.3, 0.4), di_affected_part = None\<rparr>"

definition example_config :: engine_config where
  "example_config =
     \<lparr>cost_table = [(''damaged_bumper'', Moderate) \<mapsto>
          \<lparr>rule_parts_cost = 400, rule_labor_hours = 3, rule_paint_cost = 400\<rparr>],
      classify = (\<lambda>d. Minor),
      default_labor_rate = 75,
      default_markup_percentage = 20\<rparr>"

definition example_store :: "estimation list storage" where
  "example_store =
     \<lparr>find_detection = (\<lambda>s i. if i = 1 then Some [example_damage]
                               else if i = 2 then Some [] else None),
      persist = (\<lambda>e s. Some (s @ [e]))\<rparr>"

definition example_request :: estimation_request where
  "example_request =
     \<lparr>req_detection_id = 1, req_include_paint = True,
      req_labor_rate_override = None, req_markup_override = None\<rparr>"

definition example_estimation :: estimation where
  "example_estimation =
     \<lparr>detection_id = 1, parts_cost = 400, labor_cost = 225, paint_cost = 400,
      markup = 205, markup_percentage = 20, labor_rate = 75,
      estimated_labor_hours = 3, total_cost = 1230,
      damage_items =
        [\<lparr>item_damage_type = ''damaged_bumper'', item_severity = Moderate,
          item_parts_cost = 400, item_labor_hours = 3, item_labor_cost = 225,
          item_paint_cost = 400, item_subtotal = 1025\<rparr>],
      created_at = 0\<rparr>"

text \<open>What the engine returns for detection 2, which has no damage, at time 7.\<close>

definition empty_estimation :: estimation where
  "empty_estimation =
     \<lparr>detection_id = 2, parts_cost = 0, labor_cost = 0, paint_cost = 0,
      markup = 0, markup_percentage = 20, labor_rate = 75,
      estimated_labor_hours = 0, total_cost = 0, damage_items = [], created_at = 7\<rparr>"





section \<open>Properties of createEstimation's payload\<close>

lemma estimation_payload_obj:
  "estimation_payload d (JObj ps) =
     Inr (JObj [(''detection_id'', d),
                (''include_paint'',
                   JBool (strict_neq (get_opt (JObj ps) ''includePaint'') (JBool False))),
                (''labor_rate_override'', js_or (get_opt (JObj ps) ''laborRate'') JNull),
                (''markup_override'', js_or (get_opt (JObj ps) ''markup'') JNull)])"
  by (simp add: estimation_payload_def default_options_def get_opt_def)

lemma estimation_payload_omitted:
  "estimation_payload d JUndefined = estimation_payload d (JObj [])"
  by (simp add: estimation_payload_def default_options_def)


lemma estimation_payload_built:
  assumes "options \<noteq> JNull"
  shows "estimation_payload d options =
     Inr (JObj [(''detection_id'', d),
                (''include_paint'',
                   JBool (strict_neq (get_opt (default_options options) ''includePaint'') (JBool False))),
                (''labor_rate_override'',
                   js_or (get_opt (default_options options) ''laborRate'') JNull),
                (''markup_override'',
                   js_or (get_opt (default_options options) ''markup'') JNull)])"
  using assms
  by (cases options) (simp_all add: estimation_payload_def default_options_def get_opt_def)

lemma payload_field_Inr:
  "payload_field (Inr (JObj ps)) k = (case map_of ps k of None \<Rightarrow> JUndefined | Some v \<Rightarrow> v)"
  by (simp add: payload_field_def get_opt_def)

lemma payload_field_built:
  assumes "options \<noteq> JNull"
  shows "payload_field (estimation_payload d options) ''include_paint'' =
           JBool (strict_neq (get_opt (default_options options) ''includePaint'') (JBool False))"
    and "payload_field (estimation_payload d options) ''labor_rate_override'' =
           js_or (get_opt (default_options options) ''laborRate'') JNull"
    and "payload_field (estimation_payload d options) ''markup_override'' =
           js_or (get_opt (default_options options) ''markup'') JNull"
  by (simp_all add: estimation_payload_built [OF assms] payload_field_def get_opt_def)

lemma get_opt_obj: "get_opt (JObj ps) k = (case map_of ps k of None \<Rightarrow> JUndefined | Some v \<Rightarrow> v)"
  by (simp add: get_opt_def)

lemma strict_neq_false: "strict_neq v (JBool False) = (v \<noteq> JBool False)"
  by (auto simp: strict_neq_def strict_eq_def)

text \<open>A markup override other than zero (and a labor rate other than zero) is
  forwarded as it is.\<close>

lemma nonzero_override_forwarded:
  assumes "m \<noteq> 0"
  shows "payload_field (estimation_payload d (JObj [(''markup'', JNum m)])) ''markup_override''
           = JNum m"
    and "payload_field (estimation_payload d (JObj [(''laborRate'', JNum m)])) ''labor_rate_override''
           = JNum m"
  using assms
  by (simp_all add: estimation_payload_obj payload_field_Inr get_opt_obj js_or_def)

text \<open>
  C1. With a markup option \<open>m\<close> in [0, 100] the payload's \<open>markup_override\<close> should
  be \<open>m\<close>. At \<open>m = 0\<close>, a percentage inside the range, \<open>options.markup || null\<close>
  sends \<open>null\<close>: the override is dropped and the request is the one of a call
  without the option.
\<close>

theorem createEstimation_drops_zero_markup:
  "payload_field (estimation_payload (JNum 1) (JObj [(''markup'', JNum 0)])) ''markup_override''
     = JNull
   \<and> estimation_payload (JNum 1) (JObj [(''markup'', JNum 0)])
     = estimation_payload (JNum 1) JUndefined"
  by (simp add: estimation_payload_obj estimation_payload_omitted payload_field_Inr
      get_opt_obj js_or_def)

text \<open>
  C7. The payload's \<open>include_paint\<close> is \<open>true\<close> unless the caller passes
  \<open>includePaint === false\<close>: for every options value a payload is built from (all but
  \<open>null\<close>, where reading the option throws), the field is \<open>false\<close> exactly when the
  option is the boolean \<open>false\<close>, and it is \<open>true\<close> when the options or the option
  are omitted.
\<close>

theorem include_paint_defaults_to_true:
  "(options \<noteq> JNull \<longrightarrow>
      payload_field (estimation_payload d options) ''include_paint'' =
        JBool (get_opt (default_options options) ''includePaint'' \<noteq> JBool False))
   \<and> payload_field (estimation_payload d JUndefined) ''include_paint'' = JBool True
   \<and> (map_of ps ''includePaint'' = None \<longrightarrow>
        payload_field (estimation_payload d (JObj ps)) ''include_paint'' = JBool True)"
proof -
  have "payload_field (estimation_payload d options) ''include_paint'' =
          JBool (get_opt (default_options options) ''includePaint'' \<noteq> JBool False)"
    if "options \<noteq> JNull"
    using that by (simp add: payload_field_built strict_neq_false)
  moreover have "payload_field (estimation_payload d JUndefined) ''include_paint'' = JBool True"
    by (simp add: estimation_payload_omitted estimation_payload_obj payload_field_Inr
        get_opt_obj strict_neq_false)
  moreover have "payload_field (estimation_payload d (JObj ps)) ''include_paint'' = JBool True"
    if "map_of ps ''includePaint'' = None"
    using that
    by (simp add: estimation_payload_obj payload_field_Inr get_opt_obj strict_neq_false)
  ultimately show ?thesis by blast
qed

theorem include_paint_defaults_to_true_witness:
  "payload_field (estimation_payload (JNum 1) (JObj [(''laborRate'', JNum 80)])) ''include_paint''
     = JBool True
   \<and> payload_field (estimation_payload (JNum 1) (JObj [(''includePaint'', JBool False)]))
        ''include_paint'' = JBool False
   \<and> payload_field (estimation_payload (JNum 1) (JObj [(''includePaint'', JNull)]))
        ''include_paint'' = JBool True"
  using include_paint_defaults_to_true [of "JObj [(''laborRate'', JNum 80)]" "JNum 1" "[]"]
    include_paint_defaults_to_true [of "JObj [(''includePaint'', JBool False)]" "JNum 1" "[]"]
    include_paint_defaults_to_true [of "JObj [(''includePaint'', JNull)]" "JNum 1" "[]"]
  by (simp add: get_opt_obj default_options_def estimation_payload_obj payload_field_Inr
      strict_neq_false)

lemma map_of_without:
  "map_of (filter (\<lambda>p. fst p \<noteq> k) ps) k' = (if k' = k then None else map_of ps k')"
  by (induction ps) auto

text \<open>
  C8. A \<open>laborRate\<close> option equal to 0 is sent as \<open>labor_rate_override = null\<close>, and a
  \<open>markup\<close> option equal to 0 as \<open>markup_override = null\<close>; the payload is the very
  payload of the call with that option left out, so the server cannot tell the
  zero from an omission and never sees it.
\<close>

theorem zero_override_sent_as_null:
  "(get_opt (JObj ps) ''laborRate'' = JNum 0 \<longrightarrow>
      payload_field (estimation_payload d (JObj ps)) ''labor_rate_override'' = JNull
      \<and> estimation_payload d (JObj ps) =
          estimation_payload d (JObj (filter (\<lambda>p. fst p \<noteq> ''laborRate'') ps)))
   \<and> (get_opt (JObj ps) ''markup'' = JNum 0 \<longrightarrow>
      payload_field (estimation_payload d (JObj ps)) ''markup_override'' = JNull
      \<and> estimation_payload d (JObj ps) =
          estimation_payload d (JObj (filter (\<lambda>p. fst p \<noteq> ''markup'') ps)))"
  by (simp add: estimation_payload_obj payload_field_Inr get_opt_obj js_or_def map_of_without)

theorem zero_override_sent_as_null_witness:
  "payload_field (estimation_payload (JNum 1) (JObj [(''laborRate'', JNum 0), (''markup'', JNum 0)]))
     ''labor_rate_override'' = JNull
   \<and> payload_field (estimation_payload (JNum 1) (JObj [(''laborRate'', JNum 0), (''markup'', JNum 0)]))
     ''markup_override'' = JNull
   \<and> estimation_payload (JNum 1) (JObj [(''laborRate'', JNum 0), (''markup'', JNum 0)])
     = estimation_payload (JNum 1) (JObj [(''markup'', JNum 0)])"
  using zero_override_sent_as_null [of "[(''laborRate'', JNum 0), (''markup'', JNum 0)]" "JNum 1"]
  by (simp add: get_opt_obj estimation_payload_obj payload_field_Inr js_or_def)

section \<open>Failures of the API functions\<close>

lemma api_request_rejected:
  "http req = Inl err \<Longrightarrow> api_request http req = Inl (response_error_interceptor err)"
  by (simp add: api_request_def)

lemma api_request_fulfilled:
  "http req = Inr data \<Longrightarrow> api_request http req = Inr data"
  by (simp add: api_request_def)








section \<open>The page state\<close>

text \<open>
  C9. After \<open>handleImageUpload\<close> with a new file, whatever the state before,
  \<open>detectionData\<close>, \<open>costEstimation\<close> and \<open>error\<close> are \<open>null\<close> and \<open>step\<close> is 1, while
  the uploaded image is the new file: nothing of the previous image's detection or
  estimation is left.
\<close>

theorem handleImageUpload_clears_results:
  "detectionData (handleImageUpload createObjectURL file st) = JNull
   \<and> costEstimation (handleImageUpload createObjectURL file st) = JNull
   \<and> error (handleImageUpload createObjectURL file st) = JNull
   \<and> step (handleImageUpload createObjectURL file st) = 1
   \<and> uploadedImage (handleImageUpload createObjectURL file st) = Some file
   \<and> imagePreview (handleImageUpload createObjectURL file st) = Some (createObjectURL file)"
  by (simp add: handleImageUpload_def)

text \<open>\<open>handleEstimate\<close> returns at once, leaving the state as it is, for a detection
  without damages: the page never requests an estimation of one.\<close>

lemma handleEstimate_skips_empty_detection:
  assumes "get_opt (detectionData st) ''total_damages'' = JNum 0"
  shows "handleEstimate http message_of st = st"
  using assms by (simp add: handleEstimate_def strict_eq_def)

lemma handleEstimate_stores_result:
  assumes "truthy (detectionData st)"
    and "get_opt (detectionData st) ''total_damages'' = JNum n" and "n \<noteq> 0"
    and "http (createEstimation_request
           (JObj [(''detection_id'', get_opt (detectionData st) ''detection_id''),
                  (''include_paint'', JBool True),
                  (''labor_rate_override'', JNull),
                  (''markup_override'', JNull)])) = Inr result"
  shows "handleEstimate http message_of st =
           st\<lparr>error := JNull, costEstimation := result, step := 3, loading := False\<rparr>"
  using assms
  by (simp add: handleEstimate_def strict_eq_def createEstimation_def
      estimation_payload_omitted estimation_payload_obj get_opt_obj strict_neq_false
      js_or_def api_request_def log_and_rethrow_def)

section \<open>Severity badges\<close>

lemma getSeverityBadge_cases:
  "getSeverityBadge sev =
     (if sev = ''minor'' then JStr ''badge-success''
      else if sev = ''moderate'' then JStr ''badge-warning''
      else if sev = ''severe'' then JStr ''badge-danger''
      else if sev \<in> set object_prototype_keys then JBuiltin sev
      else JStr ''badge-warning'')"
  by (simp add: getSeverityBadge_def lookup_literal_def badges_def js_or_def)

text \<open>
  C3, as stated, fails: the severity \<open>critical\<close> is outside the fixed set, and
  \<open>getSeverityBadge\<close> gives it the badge class of \<open>moderate\<close>.
\<close>

theorem getSeverityBadge_coerces_unknown_severity:
  "''critical'' \<notin> set severity_names
   \<and> getSeverityBadge ''critical'' = JStr ''badge-warning''
   \<and> getSeverityBadge ''moderate'' = JStr ''badge-warning''"
  by (simp add: getSeverityBadge_cases severity_names_def object_prototype_keys_def)

text \<open>
  C3, amended. The display components do not validate a severity, they fall back:
  \<open>getSeverityBadge\<close> maps \<open>minor\<close>, \<open>moderate\<close> and \<open>severe\<close> to \<open>badge-success\<close>,
  \<open>badge-warning\<close> and \<open>badge-danger\<close>, and every other severity that is not the name
  of a property inherited from \<open>Object.prototype\<close> to the default class
  \<open>badge-warning\<close>; \<open>getSeverityIcon\<close> gives every severity outside the set the icon
  of \<open>minor\<close>, and the item badge of CostEstimation gives it \<open>badge-success\<close>.
\<close>

theorem severity_display_falls_back:
  "getSeverityBadge ''minor'' = JStr ''badge-success''
   \<and> getSeverityBadge ''moderate'' = JStr ''badge-warning''
   \<and> getSeverityBadge ''severe'' = JStr ''badge-danger''
   \<and> (sev \<notin> set severity_names \<and> sev \<notin> set object_prototype_keys \<longrightarrow>
        getSeverityBadge sev = JStr ''badge-warning'')
   \<and> (sev \<notin> set severity_names \<longrightarrow>
        getSeverityIcon sev = getSeverityIcon ''minor''
        \<and> item_badge sev = ''badge-success'')"
  by (simp add: getSeverityBadge_cases severity_names_def getSeverityIcon_def item_badge_def)

theorem severity_display_falls_back_witness:
  "getSeverityBadge ''unknown'' = JStr ''badge-warning''
   \<and> getSeverityIcon ''unknown'' = [CHR 0xF0, CHR 0x9F, CHR 0x9F, CHR 0xA2]
   \<and> item_badge ''unknown'' = ''badge-success''"
  using severity_display_falls_back [of "''unknown''"]
  by (simp add: severity_names_def object_prototype_keys_def getSeverityIcon_def)

section \<open>The average confidence\<close>

lemma foldl_confidence:
  "foldl (\<lambda>acc d. acc + confidence d) a ds = a + sum_list (map confidence ds)"
  by (induction ds arbitrary: a) simp_all

text \<open>
  C10. The cell shows \<open>N/A\<close> for an empty \<open>damages_detected\<close>; otherwise it shows the
  sum of the confidences divided by the length, times 100, and the divisor is not zero:
  the result of a division by zero (\<open>NaN\<close> or an infinity) is never shown.
\<close>

theorem average_confidence_guarded:
  "(damages = [] \<longrightarrow> average_confidence damages = Text ''N/A'')
   \<and> (damages \<noteq> [] \<longrightarrow>
        real (length damages) \<noteq> 0
        \<and> average_confidence damages =
            Percent (Finite (sum_list (map confidence damages) / real (length damages) * 100)))
   \<and> average_confidence damages \<noteq> Percent NaN
   \<and> (\<forall>p. average_confidence damages \<noteq> Percent (JInfinity p))"
  by (cases damages) (simp_all add: average_confidence_def js_divide_def foldl_confidence)

theorem average_confidence_guarded_witness:
  "average_confidence [] = Text ''N/A''
   \<and> average_confidence
        [\<lparr>damage_type = ''damaged_bumper'', severity = ''moderate'', confidence = 0.5\<rparr>,
         \<lparr>damage_type = ''dent-or-scratch'', severity = ''minor'', confidence = 1\<rparr>]
      = Percent (Finite 75)"
  using average_confidence_guarded [of "[]"]
    average_confidence_guarded
      [of "[\<lparr>damage_type = ''damaged_bumper'', severity = ''moderate'', confidence = 0.5\<rparr>,
            \<lparr>damage_type = ''dent-or-scratch'', severity = ''minor'', confidence = 1\<rparr>]"]
  by simp

section \<open>The estimation engine\<close>

lemma line_items_subtotal:
  "line_items cfg rate include_paint ds = Inr items \<Longrightarrow>
   sum_list (map item_subtotal items) =
     sum_list (map item_parts_cost items) + sum_list (map item_labor_cost items)
       + sum_list (map item_paint_cost items)"
proof (induction ds arbitrary: items)
  case Nil
  then show ?case by simp
next
  case (Cons d ds)
  then show ?case
    by (auto simp: Let_def calculate_line_item_def split: sum.splits)
qed

lemma line_items_length:
  "line_items cfg rate include_paint ds = Inr items \<Longrightarrow> length items = length ds"
  by (induction ds arbitrary: items) (auto simp: Let_def split: sum.splits)

lemma estimate_success:
  assumes "estimate cfg store now req s = (Inr e, s')"
  obtains rate pct damages items where
    "resolve_overrides cfg req = Inr (rate, pct)"
    "find_detection store s (req_detection_id req) = Some damages"
    "line_items cfg rate (req_include_paint req) damages = Inr items"
    "e = build_estimation req rate pct items (aggregate items pct) now"
    "persist store e s = Some s'"
  using assms
  by (auto simp: estimate_def Let_def split: sum.splits option.splits prod.splits)

text \<open>An invalid override is the only way \<open>resolve_overrides\<close> fails, and what it
  resolves is the override when there is one and the default otherwise.\<close>

lemma resolve_overrides_valid:
  assumes "resolve_overrides cfg req = Inr (rate, pct)"
  shows "rate = (case req_labor_rate_override req of
                   None \<Rightarrow> default_labor_rate cfg | Some r \<Rightarrow> r)"
    and "pct = (case req_markup_override req of
                  None \<Rightarrow> default_markup_percentage cfg | Some m \<Rightarrow> m)"
  using assms
  by (auto simp: resolve_overrides_def split: option.splits if_splits)

lemma example_line_items:
  "line_items example_config 75 True [example_damage] = Inr (damage_items example_estimation)"
  by (simp add: example_config_def example_damage_def example_estimation_def
      resolve_severity_def lookup_rule_def calculate_line_item_def)

text \<open>The specification's example: labor cost 225, subtotal 1025, markup 205 and total
  cost 1230.\<close>

lemma example_estimate:
  "estimate example_config example_store 0 example_request [] =
     (Inr example_estimation, [example_estimation])"
proof -
  have ov: "resolve_overrides example_config example_request = Inr (75, 20)"
    by (simp add: resolve_overrides_def example_config_def example_request_def)
  have fd: "find_detection example_store [] (req_detection_id example_request)
              = Some [example_damage]"
    by (simp add: example_store_def example_request_def)
  have li: "line_items example_config 75 (req_include_paint example_request) [example_damage]
              = Inr (damage_items example_estimation)"
    using example_line_items by (simp add: example_request_def)
  have be: "build_estimation example_request 75 20 (damage_items example_estimation)
              (aggregate (damage_items example_estimation) 20) 0 = example_estimation"
    by (simp add: build_estimation_def aggregate_def Let_def example_estimation_def
        example_request_def)
  have ps: "persist example_store example_estimation [] = Some [example_estimation]"
    by (simp add: example_store_def)
  show ?thesis
    by (simp add: estimate_def ov fd li be ps del: line_items.simps)
qed

text \<open>
  C2. For every estimation the engine produces, markup is
  (parts cost + labor cost + paint cost) * markup percentage / 100 and total cost is
  the sum of the line items' subtotals plus markup; CostEstimation shows these very
  amounts, formatted as currency, in its Markup row and as its total.
\<close>

theorem estimation_markup_and_total:
  assumes "estimate cfg store now req s = (Inr e, s')"
  shows "markup e = (parts_cost e + labor_cost e + paint_cost e) * markup_percentage e / 100
       \<and> total_cost e = sum_list (map item_subtotal (damage_items e)) + markup e
       \<and> shown_total (CostEstimation formatCurrency e) =
           formatCurrency (sum_list (map item_subtotal (damage_items e)) + markup e)
       \<and> snd (shown_rows (CostEstimation formatCurrency e) ! 3) =
           formatCurrency ((parts_cost e + labor_cost e + paint_cost e) * markup_percentage e / 100)
       \<and> map shown_subtotal (shown_items (CostEstimation formatCurrency e)) =
           map (\<lambda>item. formatCurrency (item_subtotal item)) (damage_items e)"
proof -
  from assms obtain rate pct damages items where
    li: "line_items cfg rate (req_include_paint req) damages = Inr items" and
    e: "e = build_estimation req rate pct items (aggregate items pct) now"
    by (rule estimate_success)
  have mk: "markup e = (parts_cost e + labor_cost e + paint_cost e) * markup_percentage e / 100"
    by (simp add: e build_estimation_def aggregate_def Let_def)
  have tot: "total_cost e = sum_list (map item_subtotal (damage_items e)) + markup e"
    by (simp add: e build_estimation_def aggregate_def Let_def line_items_subtotal [OF li])
  have shown: "shown_total (CostEstimation formatCurrency e) = formatCurrency (total_cost e)"
    "snd (shown_rows (CostEstimation formatCurrency e) ! 3) = formatCurrency (markup e)"
    "map shown_subtotal (shown_items (CostEstimation formatCurrency e)) =
           map (\<lambda>item. formatCurrency (item_subtotal item)) (damage_items e)"
    by (simp_all add: CostEstimation_def comp_def)
  have s1: "shown_total (CostEstimation formatCurrency e) =
           formatCurrency (sum_list (map item_subtotal (damage_items e)) + markup e)"
    by (simp only: shown(1) tot)
  have s2: "snd (shown_rows (CostEstimation formatCurrency e) ! 3) =
           formatCurrency ((parts_cost e + labor_cost e + paint_cost e) * markup_percentage e / 100)"
    by (simp only: shown(2) mk)
  show ?thesis
    using mk tot s1 s2 shown(3) by blast
qed

theorem estimation_markup_and_total_witness:
  "estimate example_config example_store 0 example_request [] =
     (Inr example_estimation, [example_estimation])
   \<and> markup example_estimation = (400 + 225 + 400) * 20 / 100
   \<and> total_cost example_estimation = 1025 + 205
   \<and> shown_total (CostEstimation (\<lambda>amount. if amount = 1230 then ''$1,230.00'' else [])
         example_estimation) = ''$1,230.00''"
  using estimation_markup_and_total
    [OF example_estimate, of "\<lambda>amount. if amount = 1230 then ''$1,230.00'' else []"]
    example_estimate
  by (simp add: example_estimation_def)

text \<open>
  C5. Estimating a detection without damage instances, with valid overrides and a store
  that records the estimation, succeeds: the estimation has total cost 0, markup 0
  and no line item, and it is the record the store was given.
\<close>

theorem empty_detection_estimates_to_zero:
  assumes "find_detection store s (req_detection_id req) = Some []"
    and "resolve_overrides cfg req = Inr (rate, pct)"
    and "persist store (build_estimation req rate pct [] (aggregate [] pct) now) s = Some s'"
  shows "\<exists>e. estimate cfg store now req s = (Inr e, s')
           \<and> total_cost e = 0 \<and> markup e = 0 \<and> damage_items e = []
           \<and> parts_cost e = 0 \<and> labor_cost e = 0 \<and> paint_cost e = 0
           \<and> estimated_labor_hours e = 0"
  using assms
  by (simp add: estimate_def build_estimation_def aggregate_def Let_def)

theorem empty_detection_estimates_to_zero_witness:
  "estimate example_config example_store 7 (example_request\<lparr>req_detection_id := 2\<rparr>) []
     = (Inr empty_estimation, [empty_estimation])
   \<and> total_cost empty_estimation = 0
   \<and> markup empty_estimation = 0
   \<and> damage_items empty_estimation = []"
proof -
  let ?req = "example_request\<lparr>req_detection_id := 2\<rparr>"
  have fd: "find_detection example_store [] (req_detection_id ?req) = Some []"
    by (simp add: example_store_def)
  have ov: "resolve_overrides example_config ?req = Inr (75, 20)"
    by (simp add: resolve_overrides_def example_config_def example_request_def)
  have be: "build_estimation ?req 75 20 [] (aggregate [] 20) 7 = empty_estimation"
    by (simp add: build_estimation_def aggregate_def Let_def empty_estimation_def
        example_request_def)
  have ps: "persist example_store (build_estimation ?req 75 20 [] (aggregate [] 20) 7) []
              = Some [empty_estimation]"
    by (simp add: example_store_def be)
  from empty_detection_estimates_to_zero [OF fd ov ps]
  obtain e where e: "estimate example_config example_store 7 ?req [] = (Inr e, [empty_estimation])"
    by blast
  have "estimate example_config example_store 7 ?req [] = (Inr empty_estimation, [empty_estimation])"
    by (simp add: estimate_def ov be Let_def example_store_def)
  moreover have "total_cost empty_estimation = 0" "markup empty_estimation = 0"
    "damage_items empty_estimation = []"
    by (simp_all add: empty_estimation_def)
  ultimately show ?thesis
    using e by simp
qed

text \<open>
  C6. A request whose labor-rate override is not strictly positive fails with
  InvalidOverride, naming the field and the value, whatever the detection and the
  store: nothing is looked up or computed, and the store is left as it was.
\<close>

theorem invalid_labor_rate_is_rejected:
  assumes "req_labor_rate_override req = Some r" and "r \<le> 0"
  shows "estimate cfg store now req s = (Inl (InvalidOverride ''labor_rate'' r), s)"
  using assms
  by (simp add: estimate_def resolve_overrides_def)

theorem invalid_labor_rate_is_rejected_witness:
  "estimate example_config example_store 0
     (example_request\<lparr>req_labor_rate_override := Some (- 5)\<rparr>) []
   = (Inl (InvalidOverride ''labor_rate'' (- 5)), [])"
  using invalid_labor_rate_is_rejected
    [of "example_request\<lparr>req_labor_rate_override := Some (- 5)\<rparr>" "- 5"
        example_config example_store 0 "[]"]
  by simp

end
